theory Spec2Isabelle
  imports Main "HOL-Library.Sublist"
begin

section \<open>Text, exceptions and the environment\<close>

text \<open>
  The program under study is \<^verbatim>\<open>functions/data-extractor/__init__.py\<close>: a configuration
  loader, an object-store probe, a database probe and the orchestrator \<^verbatim>\<open>main\<close>.

  A Python \<^verbatim>\<open>str\<close> is modelled as a HOL \<^typ>\<open>string\<close> holding its UTF-8 encoding, so the
  Chinese text of the source's literals appears as bytes above \<^verbatim>\<open>0x7F\<close>. Every name the
  properties below look for inside a message is ASCII, and no byte of the encoding of a
  non-ASCII code point is ASCII, so "occurs in" on the bytes (\<^const>\<open>sublist\<close>) is Python's
  \<^verbatim>\<open>in\<close> on the text.
\<close>

text \<open>
  An instance of Python's \<^verbatim>\<open>Exception\<close>: its class name and the text \<^verbatim>\<open>str(e)\<close> gives.
  Every \<^verbatim>\<open>except Exception\<close> clause of the source catches every value of this type.
\<close>

datatype exn = Exn (exn_class: string) (exn_msg: string)

definition str_exn :: "exn \<Rightarrow> string" where
  "str_exn e = exn_msg e"

definition ValueError :: "string \<Rightarrow> exn" where
  "ValueError m = Exn ''ValueError'' m"

text \<open>The process environment: \<^verbatim>\<open>os.getenv(k)\<close> is \<open>env k\<close>, \<^verbatim>\<open>None\<close> when unset.\<close>

type_synonym env = "string \<rightharpoonup> string"

definition getenv :: "env \<Rightarrow> string \<Rightarrow> string option" where
  "getenv e k = e k"

definition getenv_default :: "env \<Rightarrow> string \<Rightarrow> string \<Rightarrow> string" where
  "getenv_default e k d = (case e k of None \<Rightarrow> d | Some v \<Rightarrow> v)"

text \<open>Python's \<^verbatim>\<open>not value\<close> on an optional string: true for \<^verbatim>\<open>None\<close> and for \<^verbatim>\<open>''\<close>.\<close>

fun falsy :: "string option \<Rightarrow> bool" where
  "falsy None = True"
| "falsy (Some v) = (v = [])"

text \<open>\<^verbatim>\<open>sep.join(xs)\<close>.\<close>

fun join :: "string \<Rightarrow> string list \<Rightarrow> string" where
  "join sep [] = []"
| "join sep [x] = x"
| "join sep (x # y # ys) = x @ sep @ join sep (y # ys)"

section \<open>The configuration loader\<close>

record config =
  storage_connection_string :: string
  postgres_host :: string
  postgres_port :: string
  postgres_db :: string
  postgres_user :: string
  postgres_password :: string

definition msg_missing_storage :: string where
  "msg_missing_storage =
     [CHR 0xE7, CHR 0xBC, CHR 0xBA, CHR 0xE5, CHR 0xB0, CHR 0x91, CHR 0xE7, CHR 0x8E, CHR 0xAF,
      CHR 0xE5, CHR 0xA2, CHR 0x83, CHR 0xE5, CHR 0x8F, CHR 0x98, CHR 0xE9, CHR 0x87, CHR 0x8F]
     @ '': AZURE_STORAGE_CONNECTION_STRING''"

definition msg_missing_postgres :: string where
  "msg_missing_postgres =
     [CHR 0xE7, CHR 0xBC, CHR 0xBA, CHR 0xE5, CHR 0xB0, CHR 0x91] @ ''PostgreSQL''
     @ [CHR 0xE7, CHR 0x8E, CHR 0xAF, CHR 0xE5, CHR 0xA2, CHR 0x83, CHR 0xE5, CHR 0x8F, CHR 0x98,
        CHR 0xE9, CHR 0x87, CHR 0x8F] @ '': ''"

text \<open>
  The dictionary \<^verbatim>\<open>postgres_required_vars\<close>, in insertion order, which is the order the
  comprehension building \<^verbatim>\<open>missing_vars\<close> visits it in.
\<close>

definition postgres_required_vars :: "env \<Rightarrow> (string \<times> string option) list" where
  "postgres_required_vars e =
     [(''POSTGRES_HOST'', getenv e ''POSTGRES_HOST''),
      (''POSTGRES_DB'', getenv e ''POSTGRES_DB''),
      (''POSTGRES_USER'', getenv e ''POSTGRES_USER''),
      (''POSTGRES_PASSWORD'', getenv e ''POSTGRES_PASSWORD'')]"

definition missing_vars :: "env \<Rightarrow> string list" where
  "missing_vars e = map fst (filter (\<lambda>(var, val). falsy val) (postgres_required_vars e))"

definition get_config_from_env :: "env \<Rightarrow> exn + config" where
  "get_config_from_env e =
     (let storage = getenv e ''AZURE_STORAGE_CONNECTION_STRING'';
          host = getenv e ''POSTGRES_HOST'';
          port = getenv_default e ''POSTGRES_PORT'' ''5432'';
          db = getenv e ''POSTGRES_DB'';
          user = getenv e ''POSTGRES_USER'';
          password = getenv e ''POSTGRES_PASSWORD''
      in if falsy storage then Inl (ValueError msg_missing_storage)
         else if missing_vars e \<noteq> []
           then Inl (ValueError (msg_missing_postgres @ join '', '' (missing_vars e)))
         else Inr \<lparr>storage_connection_string = the storage,
                   postgres_host = the host,
                   postgres_port = port,
                   postgres_db = the db,
                   postgres_user = the user,
                   postgres_password = the password\<rparr>)"

text \<open>The five variables the loader requires.\<close>

definition required_vars :: "string list" where
  "required_vars =
     [''AZURE_STORAGE_CONNECTION_STRING'', ''POSTGRES_HOST'', ''POSTGRES_DB'',
      ''POSTGRES_USER'', ''POSTGRES_PASSWORD'']"

section \<open>Observable effects\<close>

text \<open>
  The storage and database services are outside the program. A run is described by the
  sequence of calls the program makes on their client libraries and of the records it
  logs, in program order. What each call answers is an input of the model: every call site
  is reached at most once in a run, so one answer per call site describes every behaviour
  of the services. \<open>None\<close> as the answer of a call means that it returns, \<open>Some e\<close> that
  it raises \<open>e\<close>.
\<close>

datatype sql_param = PText string | PJson "(string \<times> string) list"

datatype event =
    LogInfo string
  | LogError string
  | BlobFromConnectionString string
  | BlobGetContainerClient string
  | BlobCreateContainer string
  | BlobGetBlobClient string string
  | BlobUpload string string string bool
  | PgConnect string string string string string
  | PgCursor
  | PgExecute string "sql_param list"
  | PgFetchone
  | PgCommit
  | PgRollback
  | PgClose

fun is_blob_event :: "event \<Rightarrow> bool" where
  "is_blob_event (BlobFromConnectionString _) = True"
| "is_blob_event (BlobGetContainerClient _) = True"
| "is_blob_event (BlobCreateContainer _) = True"
| "is_blob_event (BlobGetBlobClient _ _) = True"
| "is_blob_event (BlobUpload _ _ _ _) = True"
| "is_blob_event _ = False"

fun is_pg_event :: "event \<Rightarrow> bool" where
  "is_pg_event (PgConnect _ _ _ _ _) = True"
| "is_pg_event PgCursor = True"
| "is_pg_event (PgExecute _ _) = True"
| "is_pg_event PgFetchone = True"
| "is_pg_event PgCommit = True"
| "is_pg_event PgRollback = True"
| "is_pg_event PgClose = True"
| "is_pg_event _ = False"

fun is_log_error :: "event \<Rightarrow> bool" where
  "is_log_error (LogError _) = True"
| "is_log_error _ = False"

section \<open>Clock readings and numbers as text\<close>

text \<open>\<^verbatim>\<open>str(n)\<close> for a natural number and for an integer.\<close>

fun str_nat :: "nat \<Rightarrow> string" where
  "str_nat n = (if n < 10 then [''0123456789'' ! n]
                else str_nat (n div 10) @ [''0123456789'' ! (n mod 10)])"

declare str_nat.simps [simp del]

definition str_int :: "int \<Rightarrow> string" where
  "str_int i = (if i < 0 then ''-'' @ str_nat (nat (- i)) else str_nat (nat i))"

definition zfill :: "nat \<Rightarrow> string \<Rightarrow> string" where
  "zfill w s = replicate (w - length s) (CHR ''0'') @ s"

text \<open>
  A value of \<^verbatim>\<open>datetime.utcnow()\<close>. The two formats the source uses are written for years of
  four digits, which is what the clock returns.
\<close>

record datetime =
  dt_year :: nat
  dt_month :: nat
  dt_day :: nat
  dt_hour :: nat
  dt_minute :: nat
  dt_second :: nat
  dt_microsecond :: nat

text \<open>\<^verbatim>\<open>dt.strftime('%Y-%m-%d %H:%M:%S')\<close>.\<close>

definition strftime_seconds :: "datetime \<Rightarrow> string" where
  "strftime_seconds d =
     zfill 4 (str_nat (dt_year d)) @ ''-'' @ zfill 2 (str_nat (dt_month d)) @ ''-''
     @ zfill 2 (str_nat (dt_day d)) @ '' '' @ zfill 2 (str_nat (dt_hour d)) @ '':''
     @ zfill 2 (str_nat (dt_minute d)) @ '':'' @ zfill 2 (str_nat (dt_second d))"

text \<open>\<^verbatim>\<open>dt.isoformat()\<close>: the fraction is printed only when it is not zero.\<close>

definition isoformat :: "datetime \<Rightarrow> string" where
  "isoformat d =
     zfill 4 (str_nat (dt_year d)) @ ''-'' @ zfill 2 (str_nat (dt_month d)) @ ''-''
     @ zfill 2 (str_nat (dt_day d)) @ ''T'' @ zfill 2 (str_nat (dt_hour d)) @ '':''
     @ zfill 2 (str_nat (dt_minute d)) @ '':'' @ zfill 2 (str_nat (dt_second d))
     @ (if dt_microsecond d = 0 then [] else ''.'' @ zfill 6 (str_nat (dt_microsecond d)))"

text \<open>\<^verbatim>\<open>s.strip()\<close>, on the ASCII white space the source's literal has at its ends.\<close>

definition isspace :: "char \<Rightarrow> bool" where
  "isspace c = (c \<in> set [CHR 0x09, CHR 0x0A, CHR 0x0B, CHR 0x0C, CHR 0x0D,
                            CHR 0x1C, CHR 0x1D, CHR 0x1E, CHR 0x1F, CHR 0x20])"

definition strip :: "string \<Rightarrow> string" where
  "strip s = rev (dropWhile isspace (rev (dropWhile isspace s)))"

section \<open>The object-store probe\<close>

text \<open>
  The answers of the storage service and the random and clock values read by
  \<^verbatim>\<open>upload_test_file_to_blob\<close>, one field per call site, in the order of the calls.
  A UUID is held as the text \<^verbatim>\<open>str\<close> gives for it.
\<close>

record blob_world =
  from_connection_string_raises :: "exn option"
  blob_name_uuid4 :: string
  get_container_client_raises :: "exn option"
  create_container_raises :: "exn option"
  content_utcnow :: datetime
  content_uuid4 :: string
  get_blob_client_raises :: "exn option"
  upload_blob_raises :: "exn option"

definition container_name :: string where
  "container_name = ''test-container''"

definition msg_container_created :: string where
  "msg_container_created =
     [CHR 0xE5, CHR 0x88, CHR 0x9B, CHR 0xE5, CHR 0xBB, CHR 0xBA, CHR 0xE5, CHR 0xAE, CHR 0xB9,
      CHR 0xE5, CHR 0x99, CHR 0xA8] @ '': ''"

definition msg_container_exists :: string where
  "msg_container_exists =
     [CHR 0xE5, CHR 0xAE, CHR 0xB9, CHR 0xE5, CHR 0x99, CHR 0xA8, CHR 0xE5, CHR 0xB7, CHR 0xB2,
      CHR 0xE5, CHR 0xAD, CHR 0x98, CHR 0xE5, CHR 0x9C, CHR 0xA8] @ '': ''"

definition content_head :: string where
  "content_head =
     ''\<newline>'' @ [CHR 0xE6, CHR 0xB5, CHR 0x8B, CHR 0xE8, CHR 0xAF, CHR 0x95, CHR 0xE6, CHR 0x96,
       CHR 0x87, CHR 0xE4, CHR 0xBB, CHR 0xB6, CHR 0xE5, CHR 0x86, CHR 0x85, CHR 0xE5, CHR 0xAE,
       CHR 0xB9]
     @ ''\<newline>'' @ [CHR 0xE4, CHR 0xB8, CHR 0x8A, CHR 0xE4, CHR 0xBC, CHR 0xA0, CHR 0xE6, CHR 0x97,
       CHR 0xB6, CHR 0xE9, CHR 0x97, CHR 0xB4] @ '': ''"

definition content_file_id :: string where
  "content_file_id =
     ''\<newline>'' @ [CHR 0xE6, CHR 0x96, CHR 0x87, CHR 0xE4, CHR 0xBB, CHR 0xB6] @ ''ID: ''"

definition content_tail :: string where
  "content_tail =
     ''\<newline>'' @ [CHR 0xE8, CHR 0xBF, CHR 0x99, CHR 0xE6, CHR 0x98, CHR 0xAF, CHR 0xE4, CHR 0xB8,
       CHR 0x80, CHR 0xE4, CHR 0xB8, CHR 0xAA, CHR 0xE7, CHR 0x94, CHR 0xA8, CHR 0xE4, CHR 0xBA,
       CHR 0x8E, CHR 0xE6, CHR 0xB5, CHR 0x8B, CHR 0xE8, CHR 0xAF, CHR 0x95]
     @ ''Azure Blob Storage''
     @ [CHR 0xE4, CHR 0xB8, CHR 0x8A, CHR 0xE4, CHR 0xBC, CHR 0xA0, CHR 0xE5, CHR 0x8A, CHR 0x9F,
        CHR 0xE8, CHR 0x83, CHR 0xBD, CHR 0xE7, CHR 0x9A, CHR 0x84, CHR 0xE6, CHR 0x96, CHR 0x87,
        CHR 0xE4, CHR 0xBB, CHR 0xB6, CHR 0xE3, CHR 0x80, CHR 0x82]
     @ ''\<newline>        ''"

definition msg_uploaded :: string where
  "msg_uploaded =
     [CHR 0xE6, CHR 0x96, CHR 0x87, CHR 0xE4, CHR 0xBB, CHR 0xB6, CHR 0xE4, CHR 0xB8, CHR 0x8A,
      CHR 0xE4, CHR 0xBC, CHR 0xA0, CHR 0xE6, CHR 0x88, CHR 0x90, CHR 0xE5, CHR 0x8A, CHR 0x9F]
     @ '': ''"

definition msg_blob_failed :: string where
  "msg_blob_failed =
     ''Blob Storage'' @ [CHR 0xE6, CHR 0x93, CHR 0x8D, CHR 0xE4, CHR 0xBD, CHR 0x9C, CHR 0xE5,
       CHR 0xA4, CHR 0xB1, CHR 0xE8, CHR 0xB4, CHR 0xA5] @ '': ''"

definition blob_name_of :: "blob_world \<Rightarrow> string" where
  "blob_name_of w = ''test-file-'' @ blob_name_uuid4 w @ ''.txt''"

definition test_content :: "blob_world \<Rightarrow> string" where
  "test_content w =
     strip (content_head @ isoformat (content_utcnow w) @ content_file_id @ content_uuid4 w
            @ content_tail)"

text \<open>
  The body of the outer \<^verbatim>\<open>try\<close> of \<^verbatim>\<open>upload_test_file_to_blob\<close>: the events so far and
  either the exception that left the body or the value it returns. The inner
  \<^verbatim>\<open>try\<close> around \<^verbatim>\<open>create_container()\<close> has the handler \<^verbatim>\<open>except Exception\<close>, which
  logs and goes on, whatever was raised.
\<close>

definition upload_test_file_to_blob_try :: "blob_world \<Rightarrow> string \<Rightarrow> event list \<times> (exn + string)" where
  "upload_test_file_to_blob_try w connection_string =
     (let t1 = [BlobFromConnectionString connection_string] in
      (case from_connection_string_raises w of Some e \<Rightarrow> (t1, Inl e) | None \<Rightarrow>
      (let blob_name = blob_name_of w;
           t2 = t1 @ [BlobGetContainerClient container_name] in
      (case get_container_client_raises w of Some e \<Rightarrow> (t2, Inl e) | None \<Rightarrow>
      (let t3 = t2 @ [BlobCreateContainer container_name]
                   @ (case create_container_raises w of
                        None \<Rightarrow> [LogInfo (msg_container_created @ container_name)]
                      | Some e \<Rightarrow> [LogInfo (msg_container_exists @ container_name)]);
           content = test_content w;
           t4 = t3 @ [BlobGetBlobClient container_name blob_name] in
      (case get_blob_client_raises w of Some e \<Rightarrow> (t4, Inl e) | None \<Rightarrow>
      (let t5 = t4 @ [BlobUpload container_name blob_name content True] in
      (case upload_blob_raises w of Some e \<Rightarrow> (t5, Inl e) | None \<Rightarrow>
         (t5, Inr (msg_uploaded @ blob_name))))))))))"

text \<open>The outer handler: \<^verbatim>\<open>except Exception as e\<close> logs \<^verbatim>\<open>str(e)\<close> and re-raises \<open>e\<close>.\<close>

definition upload_test_file_to_blob :: "blob_world \<Rightarrow> string \<Rightarrow> event list \<times> (exn + string)" where
  "upload_test_file_to_blob w connection_string =
     (case upload_test_file_to_blob_try w connection_string of
        (t, Inl e) \<Rightarrow> (t @ [LogError (msg_blob_failed @ str_exn e)], Inl e)
      | (t, Inr r) \<Rightarrow> (t, Inr r))"

section \<open>The database probe\<close>

text \<open>
  The answers of the database and the random and clock values read by
  \<^verbatim>\<open>test_postgres_connection\<close>, one field per call site. \<^verbatim>\<open>cursor.fetchone()\<close> answers an
  exception, \<^verbatim>\<open>None\<close> or a row, here the list of its integer columns.
\<close>

record pg_world =
  connect_raises :: "exn option"
  cursor_raises :: "exn option"
  execute_create_raises :: "exn option"
  test_id_uuid4 :: string
  label_utcnow :: datetime
  payload_utcnow :: datetime
  execute_insert_raises :: "exn option"
  fetchone_answer :: "exn + int list option"
  commit_raises :: "exn option"
  rollback_raises :: "exn option"
  close_raises :: "exn option"

definition create_table_query :: string where
  "create_table_query =
     ''\<newline>        CREATE TABLE IF NOT EXISTS test_table (\<newline>            id SERIAL PRIMARY KEY,\<newline>            test_name VARCHAR(100) NOT NULL,\<newline>            created_at TIMESTAMP DEFAULT CURRENT_TIMESTAMP,\<newline>            test_data JSONB\<newline>        );\<newline>        ''"

definition insert_query :: string where
  "insert_query =
     ''\<newline>        INSERT INTO test_table (test_name, test_data)\<newline>        VALUES (%s, %s)\<newline>        RETURNING id;\<newline>        ''"

definition label_prefix :: string where
  "label_prefix =
     [CHR 0xE6, CHR 0xB5, CHR 0x8B, CHR 0xE8, CHR 0xAF, CHR 0x95, CHR 0xE8, CHR 0xAE, CHR 0xB0,
      CHR 0xE5, CHR 0xBD, CHR 0x95] @ '' - ''"

definition msg_inserted :: string where
  "msg_inserted =
     [CHR 0xE8, CHR 0xA1, CHR 0xA8, CHR 0xE5, CHR 0x88, CHR 0x9B, CHR 0xE5, CHR 0xBB, CHR 0xBA,
      CHR 0xE6, CHR 0x88, CHR 0x90, CHR 0xE5, CHR 0x8A, CHR 0x9F, CHR 0xEF, CHR 0xBC, CHR 0x8C,
      CHR 0xE6, CHR 0x8F, CHR 0x92, CHR 0xE5, CHR 0x85, CHR 0xA5, CHR 0xE8, CHR 0xAE, CHR 0xB0,
      CHR 0xE5, CHR 0xBD, CHR 0x95] @ ''ID: ''"

definition msg_pg_failed :: string where
  "msg_pg_failed =
     ''PostgreSQL'' @ [CHR 0xE6, CHR 0x93, CHR 0x8D, CHR 0xE4, CHR 0xBD, CHR 0x9C, CHR 0xE5,
       CHR 0xA4, CHR 0xB1, CHR 0xE8, CHR 0xB4, CHR 0xA5] @ '': ''"

text \<open>The first argument of the insert: \<^verbatim>\<open>test_name\<close>.\<close>

definition test_name_of :: "pg_world \<Rightarrow> string" where
  "test_name_of w = label_prefix @ strftime_seconds (label_utcnow w)"

text \<open>The second argument of the insert, the dictionary bound to \<^verbatim>\<open>test_data\<close>.\<close>

definition test_data_of :: "pg_world \<Rightarrow> (string \<times> string) list" where
  "test_data_of w =
     [(''file_upload'', ''success''),
      (''test_id'', test_id_uuid4 w),
      (''timestamp'', isoformat (payload_utcnow w))]"

text \<open>
  \<^verbatim>\<open>cursor.fetchone()[0]\<close>: subscripting \<^verbatim>\<open>None\<close> raises \<^verbatim>\<open>TypeError\<close>, subscripting an empty
  row raises \<^verbatim>\<open>IndexError\<close>.
\<close>

definition first_column :: "int list option \<Rightarrow> exn + int" where
  "first_column r =
     (case r of
        None \<Rightarrow> Inl (Exn ''TypeError''
                  ([CHR 0x27] @ ''NoneType'' @ [CHR 0x27] @ '' object is not subscriptable''))
      | Some [] \<Rightarrow> Inl (Exn ''IndexError'' ''tuple index out of range'')
      | Some (x # xs) \<Rightarrow> Inr x)"

text \<open>
  The body of the \<^verbatim>\<open>try\<close> of \<^verbatim>\<open>test_postgres_connection\<close>: the events so far, whether
  \<^verbatim>\<open>connection\<close> has been assigned (it is \<^verbatim>\<open>None\<close> until \<^verbatim>\<open>psycopg2.connect\<close> returns),
  and either the exception that left the body or the value it returns. The first
  \<^verbatim>\<open>execute\<close> has no parameters, written \<open>[]\<close>.
\<close>

definition test_postgres_connection_try :: "pg_world \<Rightarrow> config \<Rightarrow> event list \<times> bool \<times> (exn + string)" where
  "test_postgres_connection_try w cfg =
     (let t1 = [PgConnect (postgres_host cfg) (postgres_port cfg) (postgres_db cfg)
                          (postgres_user cfg) (postgres_password cfg)] in
      (case connect_raises w of Some e \<Rightarrow> (t1, False, Inl e) | None \<Rightarrow>
      (let t2 = t1 @ [PgCursor] in
      (case cursor_raises w of Some e \<Rightarrow> (t2, True, Inl e) | None \<Rightarrow>
      (let t3 = t2 @ [PgExecute create_table_query []] in
      (case execute_create_raises w of Some e \<Rightarrow> (t3, True, Inl e) | None \<Rightarrow>
      (let t4 = t3 @ [PgExecute insert_query [PText (test_name_of w), PJson (test_data_of w)]] in
      (case execute_insert_raises w of Some e \<Rightarrow> (t4, True, Inl e) | None \<Rightarrow>
      (let t5 = t4 @ [PgFetchone] in
      (case fetchone_answer w of Inl e \<Rightarrow> (t5, True, Inl e) | Inr row \<Rightarrow>
      (case first_column row of Inl e \<Rightarrow> (t5, True, Inl e) | Inr inserted_id \<Rightarrow>
      (let t6 = t5 @ [PgCommit] in
      (case commit_raises w of Some e \<Rightarrow> (t6, True, Inl e) | None \<Rightarrow>
         (t6, True, Inr (msg_inserted @ str_int inserted_id)))))))))))))))"

text \<open>
  The handler \<^verbatim>\<open>except Exception as e\<close>: with a connection it calls \<^verbatim>\<open>rollback()\<close> first;
  if that raises, the new exception leaves the handler and nothing is logged; otherwise
  it logs \<^verbatim>\<open>str(e)\<close> and re-raises \<open>e\<close>. A psycopg2 connection defines neither
  \<^verbatim>\<open>__bool__\<close> nor \<^verbatim>\<open>__len__\<close>, so \<^verbatim>\<open>if connection\<close> asks whether it is not \<^verbatim>\<open>None\<close>.
\<close>

definition except_rollback :: "pg_world \<Rightarrow> event list \<Rightarrow> bool \<Rightarrow> exn \<Rightarrow> event list \<times> exn" where
  "except_rollback w t connection e =
     (if connection then
        (case rollback_raises w of
           Some e' \<Rightarrow> (t @ [PgRollback], e')
         | None \<Rightarrow> (t @ [PgRollback, LogError (msg_pg_failed @ str_exn e)], e))
      else (t @ [LogError (msg_pg_failed @ str_exn e)], e))"

text \<open>
  The \<^verbatim>\<open>finally\<close> clause: with a connection it calls \<^verbatim>\<open>close()\<close>; an exception of
  \<^verbatim>\<open>close()\<close> replaces the pending outcome, be it a return value or an exception.
\<close>

definition finally_close :: "pg_world \<Rightarrow> event list \<Rightarrow> bool \<Rightarrow> exn + string \<Rightarrow> event list \<times> (exn + string)" where
  "finally_close w t connection pending =
     (if connection then
        (case close_raises w of
           Some e \<Rightarrow> (t @ [PgClose], Inl e)
         | None \<Rightarrow> (t @ [PgClose], pending))
      else (t, pending))"

definition test_postgres_connection :: "pg_world \<Rightarrow> config \<Rightarrow> event list \<times> (exn + string)" where
  "test_postgres_connection w cfg =
     (case test_postgres_connection_try w cfg of
        (t, connection, Inr r) \<Rightarrow> finally_close w t connection (Inr r)
      | (t, connection, Inl e) \<Rightarrow>
          (case except_rollback w t connection e of
             (t', e') \<Rightarrow> finally_close w t' connection (Inl e')))"

section \<open>The orchestrator\<close>

definition msg_config_ok :: string where
  "msg_config_ok =
     [CHR 0xE6, CHR 0x88, CHR 0x90, CHR 0xE5, CHR 0x8A, CHR 0x9F, CHR 0xE8, CHR 0xAF, CHR 0xBB,
      CHR 0xE5, CHR 0x8F, CHR 0x96, CHR 0xE7, CHR 0x8E, CHR 0xAF, CHR 0xE5, CHR 0xA2, CHR 0x83,
      CHR 0xE5, CHR 0x8F, CHR 0x98, CHR 0xE9, CHR 0x87, CHR 0x8F, CHR 0xE9, CHR 0x85, CHR 0x8D,
      CHR 0xE7, CHR 0xBD, CHR 0xAE]"

definition msg_blob_ok :: string where
  "msg_blob_ok =
     ''Blob Storage'' @ [CHR 0xE6, CHR 0x93, CHR 0x8D, CHR 0xE4, CHR 0xBD, CHR 0x9C, CHR 0xE6,
       CHR 0x88, CHR 0x90, CHR 0xE5, CHR 0x8A, CHR 0x9F] @ '': ''"

definition msg_pg_ok :: string where
  "msg_pg_ok =
     ''PostgreSQL'' @ [CHR 0xE6, CHR 0x93, CHR 0x8D, CHR 0xE4, CHR 0xBD, CHR 0x9C, CHR 0xE6,
       CHR 0x88, CHR 0x90, CHR 0xE5, CHR 0x8A, CHR 0x9F] @ '': ''"

definition msg_failed :: string where
  "msg_failed =
     [CHR 0xE6, CHR 0x93, CHR 0x8D, CHR 0xE4, CHR 0xBD, CHR 0x9C, CHR 0xE5, CHR 0xA4, CHR 0xB1,
      CHR 0xE8, CHR 0xB4, CHR 0xA5] @ '': ''"

text \<open>
  The body of the \<^verbatim>\<open>try\<close> of \<^verbatim>\<open>main\<close>, on an environment and the answers of the two
  services.
\<close>

definition main_try :: "env \<Rightarrow> blob_world \<Rightarrow> pg_world \<Rightarrow> event list \<times> (exn + string)" where
  "main_try e bw pw =
     (case get_config_from_env e of Inl x \<Rightarrow> ([], Inl x) | Inr cfg \<Rightarrow>
      (let t1 = [LogInfo msg_config_ok] in
      (case upload_test_file_to_blob bw (storage_connection_string cfg) of
         (tb, Inl x) \<Rightarrow> (t1 @ tb, Inl x)
       | (tb, Inr blob_result) \<Rightarrow>
      (let t2 = t1 @ tb @ [LogInfo (msg_blob_ok @ blob_result)] in
      (case test_postgres_connection pw cfg of
         (td, Inl x) \<Rightarrow> (t2 @ td, Inl x)
       | (td, Inr db_result) \<Rightarrow>
           (t2 @ td @ [LogInfo (msg_pg_ok @ db_result)], Inr ''Success''))))))"

text \<open>The handler of \<^verbatim>\<open>main\<close>: log \<^verbatim>\<open>str(e)\<close> and re-raise \<open>e\<close>.\<close>

definition main :: "env \<Rightarrow> blob_world \<Rightarrow> pg_world \<Rightarrow> event list \<times> (exn + string)" where
  "main e bw pw =
     (case main_try e bw pw of
        (t, Inl x) \<Rightarrow> (t @ [LogError (msg_failed @ str_exn x)], Inl x)
      | (t, Inr r) \<Rightarrow> (t, Inr r))"

section \<open>Vocabulary of the properties\<close>

text \<open>Loading failed and the text of the failure names the variable \<open>v\<close>.\<close>

definition fails_naming :: "exn + config \<Rightarrow> string \<Rightarrow> bool" where
  "fails_naming r v = (isl r \<and> sublist v (str_exn (projl r)))"

fun is_blob_upload :: "event \<Rightarrow> bool" where
  "is_blob_upload (BlobUpload _ _ _ _) = True"
| "is_blob_upload _ = False"


section \<open>Sample runs\<close>

definition env_complete :: env where
  "env_complete =
     map_of [(''AZURE_STORAGE_CONNECTION_STRING'', ''UseDevelopmentStorage=true''),
             (''POSTGRES_HOST'', ''db.example.org''),
             (''POSTGRES_DB'', ''pipeline''),
             (''POSTGRES_USER'', ''etl''),
             (''POSTGRES_PASSWORD'', ''s3cret'')]"

definition env_with_port :: env where
  "env_with_port =
     map_of [(''AZURE_STORAGE_CONNECTION_STRING'', ''UseDevelopmentStorage=true''),
             (''POSTGRES_HOST'', ''db.example.org''),
             (''POSTGRES_PORT'', ''6432''),
             (''POSTGRES_DB'', ''pipeline''),
             (''POSTGRES_USER'', ''etl''),
             (''POSTGRES_PASSWORD'', ''s3cret'')]"

definition cfg_complete :: config where
  "cfg_complete =
     \<lparr>storage_connection_string = ''UseDevelopmentStorage=true'',
      postgres_host = ''db.example.org'', postgres_port = ''5432'',
      postgres_db = ''pipeline'', postgres_user = ''etl'', postgres_password = ''s3cret''\<rparr>"

definition noon :: datetime where
  "noon = \<lparr>dt_year = 2024, dt_month = 3, dt_day = 9, dt_hour = 12, dt_minute = 0,
           dt_second = 0, dt_microsecond = 999998\<rparr>"

definition just_after_noon :: datetime where
  "just_after_noon = \<lparr>dt_year = 2024, dt_month = 3, dt_day = 9, dt_hour = 12, dt_minute = 0,
                       dt_second = 1, dt_microsecond = 4\<rparr>"

text \<open>A storage service on which every call returns.\<close>

definition bw_ok :: blob_world where
  "bw_ok =
     \<lparr>from_connection_string_raises = None,
      blob_name_uuid4 = ''0b0e5b5c-6a3e-4c55-9d5a-8f3c2d1e7a90'',
      get_container_client_raises = None,
      create_container_raises = None,
      content_utcnow = noon,
      content_uuid4 = ''7c1d2e3f-4a5b-4c6d-8e7f-901a2b3c4d5e'',
      get_blob_client_raises = None,
      upload_blob_raises = None\<rparr>"

text \<open>
  A storage service whose credential may write blobs but may not create containers:
  \<^verbatim>\<open>create_container()\<close> is refused, every other call returns.
\<close>

definition bw_create_refused :: blob_world where
  "bw_create_refused =
     bw_ok\<lparr>create_container_raises :=
             Some (Exn ''HttpResponseError''
                       ''This request is not authorized to perform this operation.'')\<rparr>"

text \<open>A connection string the storage client rejects.\<close>

definition bw_bad_connection_string :: blob_world where
  "bw_bad_connection_string =
     bw_ok\<lparr>from_connection_string_raises :=
             Some (Exn ''ValueError'' ''Connection string is either blank or malformed.'')\<rparr>"

text \<open>A database on which every call returns; the insert is given the row identifier 7.\<close>

definition pw_ok :: pg_world where
  "pw_ok =
     \<lparr>connect_raises = None,
      cursor_raises = None,
      execute_create_raises = None,
      test_id_uuid4 = ''3f2b8c1a-9d4e-4f6a-b7c8-1e2d3c4b5a69'',
      label_utcnow = noon,
      payload_utcnow = just_after_noon,
      execute_insert_raises = None,
      fetchone_answer = Inr (Some [7]),
      commit_raises = None,
      rollback_raises = None,
      close_raises = None\<rparr>"

text \<open>A database that refuses the insert.\<close>

definition pw_insert_fails :: pg_world where
  "pw_insert_fails =
     pw_ok\<lparr>execute_insert_raises :=
             Some (Exn ''ProgrammingError'' ''permission denied for table test_table'')\<rparr>"

text \<open>A database that cannot be reached.\<close>

definition pw_unreachable :: pg_world where
  "pw_unreachable =
     pw_ok\<lparr>connect_raises :=
             Some (Exn ''OperationalError'' ''could not connect to server: Connection refused'')\<rparr>"

section \<open>Properties of the configuration loader\<close>

lemma sublist_join: "v \<in> set xs \<Longrightarrow> sublist v (join sep xs)"
proof (induction sep xs rule: join.induct)
  case (1 sep)
  then show ?case by simp
next
  case (2 sep x)
  then show ?case by simp
next
  case (3 sep x y ys)
  show ?case
  proof (cases "v = x")
    case True
    have "join sep (x # y # ys) = [] @ v @ (sep @ join sep (y # ys))" using True by simp
    then show ?thesis unfolding sublist_def by blast
  next
    case False
    with 3 obtain ps ss where "join sep (y # ys) = ps @ v @ ss"
      unfolding sublist_def by auto
    then have "join sep (x # y # ys) = (x @ sep @ ps) @ v @ ss" by simp
    then show ?thesis unfolding sublist_def by blast
  qed
qed

lemma missing_vars_mem:
  "v \<in> set (missing_vars e) \<longleftrightarrow>
     v \<in> {''POSTGRES_HOST'', ''POSTGRES_DB'', ''POSTGRES_USER'', ''POSTGRES_PASSWORD''} \<and> falsy (e v)"
  by (auto simp: missing_vars_def postgres_required_vars_def getenv_def)

lemma missing_vars_Nil:
  "missing_vars e = [] \<longleftrightarrow>
     \<not> falsy (e ''POSTGRES_HOST'') \<and> \<not> falsy (e ''POSTGRES_DB'') \<and>
     \<not> falsy (e ''POSTGRES_USER'') \<and> \<not> falsy (e ''POSTGRES_PASSWORD'')"
  by (simp add: missing_vars_def postgres_required_vars_def getenv_def)

lemma storage_missing:
  "falsy (e ''AZURE_STORAGE_CONNECTION_STRING'') \<Longrightarrow>
     get_config_from_env e = Inl (ValueError msg_missing_storage)"
  by (simp add: get_config_from_env_def getenv_def)

lemma postgres_missing:
  "\<not> falsy (e ''AZURE_STORAGE_CONNECTION_STRING'') \<Longrightarrow> missing_vars e \<noteq> [] \<Longrightarrow>
     get_config_from_env e =
       Inl (ValueError (msg_missing_postgres @ join '', '' (missing_vars e)))"
  by (simp add: get_config_from_env_def getenv_def)

lemma storage_named:
  "sublist ''AZURE_STORAGE_CONNECTION_STRING'' msg_missing_storage"
proof -
  have "msg_missing_storage =
          take 20 msg_missing_storage @ ''AZURE_STORAGE_CONNECTION_STRING'' @ []"
    by (simp add: msg_missing_storage_def)
  then show ?thesis unfolding sublist_def by blast
qed

lemma required_vars_cases:
  "v \<in> set required_vars \<longleftrightarrow>
     v = ''AZURE_STORAGE_CONNECTION_STRING'' \<or>
     v \<in> {''POSTGRES_HOST'', ''POSTGRES_DB'', ''POSTGRES_USER'', ''POSTGRES_PASSWORD''}"
  by (auto simp: required_vars_def)

lemma postgres_named:
  assumes az: "\<not> falsy (e ''AZURE_STORAGE_CONNECTION_STRING'')"
      and v: "v \<in> set required_vars" and f: "falsy (e v)"
  shows "fails_naming (get_config_from_env e) v"
proof -
  from az v f have "v \<in> {''POSTGRES_HOST'', ''POSTGRES_DB'', ''POSTGRES_USER'', ''POSTGRES_PASSWORD''}"
    by (auto simp: required_vars_cases)
  with f have mem: "v \<in> set (missing_vars e)" by (simp only: missing_vars_mem simp_thms)
  then have ne: "missing_vars e \<noteq> []" by auto
  have "sublist v (join '', '' (missing_vars e))" using mem by (rule sublist_join)
  then have "sublist v (msg_missing_postgres @ join '', '' (missing_vars e))"
    by (simp add: sublist_append)
  then show ?thesis
    by (simp add: postgres_missing [OF az ne] fails_naming_def str_exn_def ValueError_def)
qed

lemma missing_fails:
  assumes "v \<in> set required_vars" and "falsy (e v)"
  shows "isl (get_config_from_env e)"
proof (cases "falsy (e ''AZURE_STORAGE_CONNECTION_STRING'')")
  case True
  then show ?thesis by (simp add: storage_missing)
next
  case False
  with assms have "v \<in> set (missing_vars e)"
    by (auto simp: required_vars_cases missing_vars_mem)
  then have "missing_vars e \<noteq> []" by auto
  then show ?thesis using False by (simp add: postgres_missing)
qed

text \<open>
  Claim C1, as the code has it. In every environment in which a required variable is absent,
  loading fails. The storage connection string is checked first and alone: when it is
  missing, the failure is the fixed text naming \<^verbatim>\<open>AZURE_STORAGE_CONNECTION_STRING\<close>, and
  no PostgreSQL variable is looked at. When it is present, the failure text names every
  missing required variable at once, in the order host, database, user, password.
\<close>

theorem config_missing_named:
  assumes "v \<in> set required_vars" and "e v = None"
  shows "isl (get_config_from_env e) \<and>
         (falsy (e ''AZURE_STORAGE_CONNECTION_STRING'') \<longrightarrow>
            get_config_from_env e = Inl (ValueError msg_missing_storage) \<and>
            fails_naming (get_config_from_env e) ''AZURE_STORAGE_CONNECTION_STRING'') \<and>
         (\<not> falsy (e ''AZURE_STORAGE_CONNECTION_STRING'') \<longrightarrow>
            get_config_from_env e =
              Inl (ValueError (msg_missing_postgres @ join '', '' (missing_vars e))) \<and>
            (\<forall>u \<in> set required_vars. falsy (e u) \<longrightarrow> fails_naming (get_config_from_env e) u))"
proof (cases "falsy (e ''AZURE_STORAGE_CONNECTION_STRING'')")
  case True
  then show ?thesis
    using storage_named
    by (simp add: storage_missing fails_naming_def str_exn_def ValueError_def)
next
  case False
  from assms have fv: "falsy (e v)" by simp
  with False assms(1) have "v \<in> set (missing_vars e)"
    by (auto simp: required_vars_cases missing_vars_mem)
  then have ne: "missing_vars e \<noteq> []" by auto
  show ?thesis
    using False postgres_named [of e, OF False]
    by (simp add: postgres_missing [OF False ne])
qed

theorem config_missing_named_witness:
  "map_of [(''AZURE_STORAGE_CONNECTION_STRING'', ''UseDevelopmentStorage=true''),
           (''POSTGRES_HOST'', ''db.example.org'')] ''POSTGRES_USER'' = None \<and>
   fails_naming
     (get_config_from_env
        (map_of [(''AZURE_STORAGE_CONNECTION_STRING'', ''UseDevelopmentStorage=true''),
                 (''POSTGRES_HOST'', ''db.example.org'')])) ''POSTGRES_USER'' \<and>
   fails_naming
     (get_config_from_env
        (map_of [(''AZURE_STORAGE_CONNECTION_STRING'', ''UseDevelopmentStorage=true''),
                 (''POSTGRES_HOST'', ''db.example.org'')])) ''POSTGRES_DB''"
proof -
  let ?e = "map_of [(''AZURE_STORAGE_CONNECTION_STRING'', ''UseDevelopmentStorage=true''),
                    (''POSTGRES_HOST'', ''db.example.org'')]"
  have user: "''POSTGRES_USER'' \<in> set required_vars" and db: "''POSTGRES_DB'' \<in> set required_vars"
    by (simp_all add: required_vars_def)
  have absent: "?e ''POSTGRES_USER'' = None" by simp
  have storage: "\<not> falsy (?e ''AZURE_STORAGE_CONNECTION_STRING'')" by simp
  from config_missing_named [where v = "''POSTGRES_USER''" and e = ?e, OF user absent] storage
  have named: "\<forall>u \<in> set required_vars. falsy (?e u) \<longrightarrow> fails_naming (get_config_from_env ?e) u"
    by blast
  have "fails_naming (get_config_from_env ?e) ''POSTGRES_USER''"
    using bspec [OF named user] by simp
  moreover have "fails_naming (get_config_from_env ?e) ''POSTGRES_DB''"
    using bspec [OF named db] by simp
  ultimately show ?thesis using absent by blast
qed

text \<open>
  In the empty environment \<^verbatim>\<open>POSTGRES_DB\<close> is absent, and the failure text does not name
  it: the loader stopped at the storage connection string.
\<close>

theorem config_names_every_missing_counterexample:
  "map_of [] ''POSTGRES_DB'' = (None :: string option) \<and>
   get_config_from_env (map_of []) = Inl (ValueError msg_missing_storage) \<and>
   \<not> fails_naming (get_config_from_env (map_of [])) ''POSTGRES_DB''"
  by (simp add: storage_missing fails_naming_def str_exn_def ValueError_def
                msg_missing_storage_def sublist_Cons_right)


text \<open>
  Claim C3. When the five required variables are set to non-empty values, loading
  succeeds and the record holds exactly the values of the environment; the port is the
  value of \<^verbatim>\<open>POSTGRES_PORT\<close> when it is set and the text \<^verbatim>\<open>5432\<close> when it is not.
\<close>

theorem config_complete_loaded:
  assumes "e ''AZURE_STORAGE_CONNECTION_STRING'' = Some s" and "s \<noteq> []"
      and "e ''POSTGRES_HOST'' = Some h" and "h \<noteq> []"
      and "e ''POSTGRES_DB'' = Some d" and "d \<noteq> []"
      and "e ''POSTGRES_USER'' = Some u" and "u \<noteq> []"
      and "e ''POSTGRES_PASSWORD'' = Some p" and "p \<noteq> []"
  shows "get_config_from_env e =
           Inr \<lparr>storage_connection_string = s, postgres_host = h,
                postgres_port = (case e ''POSTGRES_PORT'' of None \<Rightarrow> ''5432'' | Some q \<Rightarrow> q),
                postgres_db = d, postgres_user = u, postgres_password = p\<rparr>"
proof -
  have "missing_vars e = []" using assms by (simp add: missing_vars_Nil)
  then show ?thesis using assms
    by (simp add: get_config_from_env_def getenv_def getenv_default_def)
qed

theorem config_complete_loaded_witness:
  "get_config_from_env env_complete = Inr cfg_complete \<and>
   get_config_from_env env_with_port = Inr (cfg_complete\<lparr>postgres_port := ''6432''\<rparr>)"
  using config_complete_loaded
          [of env_complete "''UseDevelopmentStorage=true''" "''db.example.org''" "''pipeline''"
              "''etl''" "''s3cret''"]
        config_complete_loaded
          [of env_with_port "''UseDevelopmentStorage=true''" "''db.example.org''" "''pipeline''"
              "''etl''" "''s3cret''"]
  by (simp add: env_complete_def env_with_port_def cfg_complete_def)

text \<open>
  The loader reads a required variable only through \<^const>\<open>falsy\<close> as long as it fails.
\<close>

lemma get_config_cong:
  assumes "\<forall>k \<in> set required_vars. falsy (e k) = falsy (e' k)"
      and "\<exists>k \<in> set required_vars. falsy (e k)"
  shows "get_config_from_env e = get_config_from_env e'"
proof -
  have eq: "\<And>k. k \<in> set required_vars \<Longrightarrow> falsy (e k) = falsy (e' k)" using assms(1) by blast
  have mv: "missing_vars e = missing_vars e'"
    using eq by (simp add: missing_vars_def postgres_required_vars_def getenv_def required_vars_def)
  have az: "falsy (e ''AZURE_STORAGE_CONNECTION_STRING'') = falsy (e' ''AZURE_STORAGE_CONNECTION_STRING'')"
    using eq by (simp add: required_vars_def)
  show ?thesis
  proof (cases "falsy (e ''AZURE_STORAGE_CONNECTION_STRING'')")
    case True
    then show ?thesis using az by (simp add: storage_missing)
  next
    case False
    with assms(2) have "missing_vars e \<noteq> []"
      by (auto simp: missing_vars_Nil required_vars_def)
    then show ?thesis using False az mv by (simp add: postgres_missing)
  qed
qed

text \<open>
  Claim C9, as the code has it. A required variable set to the empty text gives the very
  result the loader gives with that variable unset, and this result is a failure. Its
  text names the variable when the variable is the storage connection string, or when
  the storage connection string is present; when a PostgreSQL variable is empty and the
  storage connection string is missing too, only the latter is named.
\<close>

theorem empty_like_absent:
  assumes "v \<in> set required_vars"
  shows "get_config_from_env (e(v \<mapsto> [])) = get_config_from_env (e(v := None)) \<and>
         isl (get_config_from_env (e(v \<mapsto> []))) \<and>
         (v = ''AZURE_STORAGE_CONNECTION_STRING'' \<or> \<not> falsy (e ''AZURE_STORAGE_CONNECTION_STRING'')
            \<longrightarrow> fails_naming (get_config_from_env (e(v \<mapsto> []))) v)"
proof -
  have same: "get_config_from_env (e(v \<mapsto> [])) = get_config_from_env (e(v := None))"
    using assms by (intro get_config_cong) auto
  have fails: "isl (get_config_from_env (e(v \<mapsto> [])))"
    using missing_fails [where v = v and e = "e(v \<mapsto> [])"] assms by simp
  have named: "fails_naming (get_config_from_env (e(v \<mapsto> []))) v"
    if "v = ''AZURE_STORAGE_CONNECTION_STRING'' \<or> \<not> falsy (e ''AZURE_STORAGE_CONNECTION_STRING'')"
  proof (cases "v = ''AZURE_STORAGE_CONNECTION_STRING''")
    case True
    then show ?thesis using storage_named
      by (simp add: storage_missing fails_naming_def str_exn_def ValueError_def)
  next
    case False
    with that have "\<not> falsy ((e(v \<mapsto> [])) ''AZURE_STORAGE_CONNECTION_STRING'')" by simp
    then show ?thesis using assms by (rule postgres_named) simp
  qed
  from same fails named show ?thesis by blast
qed

theorem empty_like_absent_witness:
  "get_config_from_env (env_complete(''POSTGRES_DB'' \<mapsto> [])) =
     get_config_from_env (env_complete(''POSTGRES_DB'' := None)) \<and>
   fails_naming (get_config_from_env (env_complete(''POSTGRES_DB'' \<mapsto> []))) ''POSTGRES_DB''"
proof -
  have req: "''POSTGRES_DB'' \<in> set required_vars" by (simp add: required_vars_def)
  have storage: "\<not> falsy (env_complete ''AZURE_STORAGE_CONNECTION_STRING'')"
    by (simp add: env_complete_def)
  from empty_like_absent [where v = "''POSTGRES_DB''" and e = env_complete, OF req] storage
  show ?thesis by blast
qed

text \<open>
  With \<^verbatim>\<open>POSTGRES_HOST\<close> set to the empty text and nothing else set, loading fails and
  the failure text does not name \<^verbatim>\<open>POSTGRES_HOST\<close>.
\<close>

theorem empty_variable_named_counterexample:
  "map_of [(''POSTGRES_HOST'', [])] ''POSTGRES_HOST'' = Some [] \<and>
   isl (get_config_from_env (map_of [(''POSTGRES_HOST'', [])])) \<and>
   \<not> fails_naming (get_config_from_env (map_of [(''POSTGRES_HOST'', [])])) ''POSTGRES_HOST''"
  by (simp add: storage_missing fails_naming_def str_exn_def ValueError_def
                msg_missing_storage_def sublist_Cons_right)

section \<open>Properties of the object-store probe\<close>

lemma upload_try_success:
  assumes "snd (upload_test_file_to_blob_try w cs) = Inr r"
  shows "upload_test_file_to_blob_try w cs =
           ([BlobFromConnectionString cs, BlobGetContainerClient container_name,
             BlobCreateContainer container_name,
             LogInfo ((case create_container_raises w of None \<Rightarrow> msg_container_created
                       | Some e \<Rightarrow> msg_container_exists) @ container_name),
             BlobGetBlobClient container_name (blob_name_of w),
             BlobUpload container_name (blob_name_of w) (test_content w) True],
            Inr (msg_uploaded @ blob_name_of w))"
  using assms
  by (simp add: upload_test_file_to_blob_try_def Let_def split: option.splits)

lemma upload_snd:
  "snd (upload_test_file_to_blob w cs) = snd (upload_test_file_to_blob_try w cs)"
  by (simp add: upload_test_file_to_blob_def split: prod.splits sum.splits)

lemma upload_success:
  assumes "snd (upload_test_file_to_blob w cs) = Inr r"
  shows "upload_test_file_to_blob w cs = upload_test_file_to_blob_try w cs"
  using assms
  by (simp add: upload_test_file_to_blob_def split: prod.splits sum.splits)

text \<open>
  Claim C8. A run of the object-store probe that returns has made exactly one upload: into
  the container \<^verbatim>\<open>test-container\<close>, under the name \<^verbatim>\<open>test-file-\<close>, the random identifier,
  \<^verbatim>\<open>.txt\<close>, with \<^verbatim>\<open>overwrite=True\<close>; the text it returns ends with that blob name.
\<close>

theorem upload_success_single_blob:
  assumes "snd (upload_test_file_to_blob w cs) = Inr r"
  shows "filter is_blob_upload (fst (upload_test_file_to_blob w cs)) =
           [BlobUpload ''test-container'' (''test-file-'' @ blob_name_uuid4 w @ ''.txt'')
                       (test_content w) True] \<and>
         r = msg_uploaded @ ''test-file-'' @ blob_name_uuid4 w @ ''.txt'' \<and>
         sublist (''test-file-'' @ blob_name_uuid4 w @ ''.txt'') r"
proof -
  from assms have "snd (upload_test_file_to_blob_try w cs) = Inr r" by (simp add: upload_snd)
  note run = upload_try_success [OF this]
  have whole: "upload_test_file_to_blob w cs = upload_test_file_to_blob_try w cs"
    using assms by (rule upload_success)
  have r: "r = msg_uploaded @ blob_name_of w" using assms whole run by simp
  have "sublist (blob_name_of w) (msg_uploaded @ blob_name_of w @ [])"
    unfolding sublist_def by blast
  then have "sublist (blob_name_of w) r" using r by simp
  then show ?thesis using whole run r
    by (simp add: container_name_def blob_name_of_def)
qed

theorem upload_success_single_blob_witness:
  "snd (upload_test_file_to_blob bw_ok ''UseDevelopmentStorage=true'') =
     Inr (msg_uploaded @ ''test-file-0b0e5b5c-6a3e-4c55-9d5a-8f3c2d1e7a90.txt'') \<and>
   filter is_blob_upload (fst (upload_test_file_to_blob bw_ok ''UseDevelopmentStorage=true'')) =
     [BlobUpload ''test-container'' ''test-file-0b0e5b5c-6a3e-4c55-9d5a-8f3c2d1e7a90.txt''
                 (test_content bw_ok) True]"
proof -
  have ok: "snd (upload_test_file_to_blob bw_ok ''UseDevelopmentStorage=true'') =
              Inr (msg_uploaded @ ''test-file-0b0e5b5c-6a3e-4c55-9d5a-8f3c2d1e7a90.txt'')"
    by (simp add: upload_test_file_to_blob_def upload_test_file_to_blob_try_def bw_ok_def
                  blob_name_of_def Let_def)
  from upload_success_single_blob [OF ok] ok show ?thesis by (simp add: bw_ok_def)
qed

text \<open>
  Claim C2 on the code. The handler around \<^verbatim>\<open>create_container()\<close> is
  \<^verbatim>\<open>except Exception\<close>: a refusal for lack of authorisation is logged at level info as
  "container already exists", no error is logged, nothing propagates, and the probe goes
  on to upload and returns its success text.
\<close>

theorem create_container_failure_swallowed:
  "create_container_raises bw_create_refused =
     Some (Exn ''HttpResponseError'' ''This request is not authorized to perform this operation.'') \<and>
   upload_test_file_to_blob bw_create_refused ''UseDevelopmentStorage=true'' =
     ([BlobFromConnectionString ''UseDevelopmentStorage=true'',
       BlobGetContainerClient ''test-container'',
       BlobCreateContainer ''test-container'',
       LogInfo (msg_container_exists @ ''test-container''),
       BlobGetBlobClient ''test-container'' ''test-file-0b0e5b5c-6a3e-4c55-9d5a-8f3c2d1e7a90.txt'',
       BlobUpload ''test-container'' ''test-file-0b0e5b5c-6a3e-4c55-9d5a-8f3c2d1e7a90.txt''
                  (test_content bw_create_refused) True],
      Inr (msg_uploaded @ ''test-file-0b0e5b5c-6a3e-4c55-9d5a-8f3c2d1e7a90.txt''))"
  by (simp add: upload_test_file_to_blob_def upload_test_file_to_blob_try_def
                bw_create_refused_def bw_ok_def blob_name_of_def container_name_def Let_def)

section \<open>Properties of the database probe\<close>


lemma first_column_Inr:
  "first_column row = Inr i \<longleftrightarrow> (\<exists>rest. row = Some (i # rest))"
  by (auto simp: first_column_def split: option.splits list.splits)

lemma try_connect_failed:
  "connect_raises w = Some e \<Longrightarrow>
     test_postgres_connection_try w cfg =
       ([PgConnect (postgres_host cfg) (postgres_port cfg) (postgres_db cfg)
                   (postgres_user cfg) (postgres_password cfg)], False, Inl e)"
  by (simp add: test_postgres_connection_try_def)

lemma try_connected:
  "connect_raises w = None \<Longrightarrow> fst (snd (test_postgres_connection_try w cfg))"
  by (simp add: test_postgres_connection_try_def Let_def split: option.splits sum.splits)

lemma try_no_cleanup:
  "PgClose \<notin> set (fst (test_postgres_connection_try w cfg)) \<and>
   PgRollback \<notin> set (fst (test_postgres_connection_try w cfg))"
  by (simp add: test_postgres_connection_try_def Let_def split: option.splits sum.splits)

lemma try_success:
  assumes "snd (snd (test_postgres_connection_try w cfg)) = Inr r"
  shows "\<exists>i rest. fetchone_answer w = Inr (Some (i # rest)) \<and>
           test_postgres_connection_try w cfg =
             ([PgConnect (postgres_host cfg) (postgres_port cfg) (postgres_db cfg)
                         (postgres_user cfg) (postgres_password cfg),
               PgCursor,
               PgExecute create_table_query [],
               PgExecute insert_query [PText (test_name_of w), PJson (test_data_of w)],
               PgFetchone, PgCommit],
              True, Inr (msg_inserted @ str_int i))"
proof -
  from assms obtain i where col: "first_column (projr (fetchone_answer w)) = Inr i"
      and run: "test_postgres_connection_try w cfg =
             ([PgConnect (postgres_host cfg) (postgres_port cfg) (postgres_db cfg)
                         (postgres_user cfg) (postgres_password cfg),
               PgCursor,
               PgExecute create_table_query [],
               PgExecute insert_query [PText (test_name_of w), PJson (test_data_of w)],
               PgFetchone, PgCommit],
              True, Inr (msg_inserted @ str_int i))"
      and row: "\<not> isl (fetchone_answer w)"
    by (auto simp: test_postgres_connection_try_def Let_def split: option.splits sum.splits)
  from col obtain rest where "projr (fetchone_answer w) = Some (i # rest)"
    by (auto simp: first_column_Inr)
  with row have "fetchone_answer w = Inr (Some (i # rest))"
    by (cases "fetchone_answer w") simp_all
  with run show ?thesis by blast
qed

lemma pg_run_returned:
  assumes "test_postgres_connection_try w cfg = (t, True, Inr r)"
  shows "test_postgres_connection w cfg =
           (t @ [PgClose], case close_raises w of None \<Rightarrow> Inr r | Some e \<Rightarrow> Inl e)"
  using assms
  by (auto simp: test_postgres_connection_def finally_close_def split: option.splits)

text \<open>
  Claim C6. Once \<^verbatim>\<open>psycopg2.connect\<close> has returned, \<^verbatim>\<open>close()\<close> is called exactly once and
  it is the last event of the run, whatever happens in between. When a statement of the
  \<^verbatim>\<open>try\<close> body raises after the connection was opened (cursor, either \<^verbatim>\<open>execute\<close>,
  \<^verbatim>\<open>fetchone\<close>, the subscript, \<^verbatim>\<open>commit\<close>), the probe ends with an exception, and
  \<^verbatim>\<open>rollback()\<close> is called after the events of the body and before \<^verbatim>\<open>close()\<close>. When the
  body returns, it has committed and \<^verbatim>\<open>close()\<close> follows directly. The exceptions the
  claim speaks of are those of the guarded statements; \<^verbatim>\<open>close()\<close> itself stands in the
  \<^verbatim>\<open>finally\<close> clause, after the transaction has ended.
\<close>

theorem pg_rollback_then_close:
  assumes "connect_raises w = None"
  shows "length (filter (\<lambda>ev. ev = PgClose) (fst (test_postgres_connection w cfg))) = 1 \<and>
         last (fst (test_postgres_connection w cfg)) = PgClose \<and>
         (isl (snd (snd (test_postgres_connection_try w cfg))) \<longrightarrow>
            isl (snd (test_postgres_connection w cfg)) \<and>
            (\<exists>mid. fst (test_postgres_connection w cfg) =
                     fst (test_postgres_connection_try w cfg) @ [PgRollback] @ mid @ [PgClose] \<and>
                   PgClose \<notin> set mid)) \<and>
         (\<not> isl (snd (snd (test_postgres_connection_try w cfg))) \<longrightarrow>
            fst (test_postgres_connection w cfg) =
              fst (test_postgres_connection_try w cfg) @ [PgClose] \<and>
            PgCommit \<in> set (fst (test_postgres_connection_try w cfg)))"
proof -
  let ?body = "test_postgres_connection_try w cfg"
  let ?t = "fst ?body"
  have conn: "fst (snd ?body)" using assms by (rule try_connected)
  have clean: "PgClose \<notin> set ?t" using try_no_cleanup by blast
  then have nofilter: "filter (\<lambda>ev. ev = PgClose) ?t = []" by (auto simp: filter_empty_conv)
  show ?thesis
  proof (cases "snd (snd ?body)")
    case (Inl e)
    with conn have shape: "?body = (?t, True, Inl e)" by (metis (full_types) prod.collapse)
    have run: "test_postgres_connection w cfg =
                 (?t @ [PgRollback] @
                    (case rollback_raises w of None \<Rightarrow> [LogError (msg_pg_failed @ str_exn e)]
                     | Some x \<Rightarrow> []) @ [PgClose],
                  case close_raises w of Some x \<Rightarrow> Inl x
                  | None \<Rightarrow> (case rollback_raises w of None \<Rightarrow> Inl e | Some x \<Rightarrow> Inl x))"
      unfolding test_postgres_connection_def
      by (subst shape) (simp add: except_rollback_def finally_close_def split: option.splits)
    have mid: "PgClose \<notin> set (case rollback_raises w of
                                 None \<Rightarrow> [LogError (msg_pg_failed @ str_exn e)] | Some x \<Rightarrow> [])"
      by (simp split: option.splits)
    have failed: "isl (snd (test_postgres_connection w cfg))"
      by (simp add: run split: option.splits)
    have count: "length (filter (\<lambda>ev. ev = PgClose) (fst (test_postgres_connection w cfg))) = 1"
      by (simp add: run nofilter split: option.splits)
    have lst: "last (fst (test_postgres_connection w cfg)) = PgClose" by (simp add: run)
    have ord: "\<exists>mid. fst (test_postgres_connection w cfg) = ?t @ [PgRollback] @ mid @ [PgClose] \<and>
                   PgClose \<notin> set mid"
      using mid by (subst run) (simp only: fst_conv, blast)
    from Inl failed count lst ord show ?thesis by simp
  next
    case (Inr r)
    with conn have shape: "?body = (?t, True, Inr r)" by (metis (full_types) prod.collapse)
    note run = pg_run_returned [OF shape]
    from Inr try_success [of w cfg r] have commit: "PgCommit \<in> set ?t" by auto
    have count: "length (filter (\<lambda>ev. ev = PgClose) (fst (test_postgres_connection w cfg))) = 1"
      by (simp add: run nofilter)
    have lst: "last (fst (test_postgres_connection w cfg)) = PgClose" by (simp add: run)
    from Inr commit count lst run show ?thesis by simp
  qed
qed


theorem pg_rollback_then_close_witness:
  "connect_raises pw_insert_fails = None \<and>
   isl (snd (snd (test_postgres_connection_try pw_insert_fails cfg_complete))) \<and>
   isl (snd (test_postgres_connection pw_insert_fails cfg_complete)) \<and>
   last (fst (test_postgres_connection pw_insert_fails cfg_complete)) = PgClose \<and>
   PgRollback \<in> set (fst (test_postgres_connection pw_insert_fails cfg_complete))"
proof -
  have conn: "connect_raises pw_insert_fails = None"
    by (simp add: pw_insert_fails_def pw_ok_def)
  have raised: "isl (snd (snd (test_postgres_connection_try pw_insert_fails cfg_complete)))"
    by (simp add: test_postgres_connection_try_def pw_insert_fails_def pw_ok_def Let_def)
  from pg_rollback_then_close [OF conn, of cfg_complete] raised
  have "isl (snd (test_postgres_connection pw_insert_fails cfg_complete))"
    and "last (fst (test_postgres_connection pw_insert_fails cfg_complete)) = PgClose"
    and "\<exists>mid. fst (test_postgres_connection pw_insert_fails cfg_complete) =
           fst (test_postgres_connection_try pw_insert_fails cfg_complete) @ [PgRollback] @ mid
             @ [PgClose] \<and> PgClose \<notin> set mid"
    by blast+
  then show ?thesis using conn raised by auto
qed

text \<open>
  Claim C10. When \<^verbatim>\<open>psycopg2.connect\<close> raises, the probe logs the exception and re-raises
  it; the only call made on the database library is \<^verbatim>\<open>connect\<close> itself: no rollback and
  no close.
\<close>

theorem pg_connect_failure_touches_nothing:
  assumes "connect_raises w = Some e"
  shows "test_postgres_connection w cfg =
           ([PgConnect (postgres_host cfg) (postgres_port cfg) (postgres_db cfg)
                       (postgres_user cfg) (postgres_password cfg),
             LogError (msg_pg_failed @ str_exn e)],
            Inl e) \<and>
         PgRollback \<notin> set (fst (test_postgres_connection w cfg)) \<and>
         PgClose \<notin> set (fst (test_postgres_connection w cfg)) \<and>
         filter is_pg_event (fst (test_postgres_connection w cfg)) =
           [PgConnect (postgres_host cfg) (postgres_port cfg) (postgres_db cfg)
                      (postgres_user cfg) (postgres_password cfg)]"
  by (simp add: test_postgres_connection_def try_connect_failed [OF assms] except_rollback_def
                finally_close_def)

theorem pg_connect_failure_touches_nothing_witness:
  "test_postgres_connection pw_unreachable cfg_complete =
     ([PgConnect ''db.example.org'' ''5432'' ''pipeline'' ''etl'' ''s3cret'',
       LogError (msg_pg_failed @ ''could not connect to server: Connection refused'')],
      Inl (Exn ''OperationalError'' ''could not connect to server: Connection refused''))"
proof -
  have "connect_raises pw_unreachable =
          Some (Exn ''OperationalError'' ''could not connect to server: Connection refused'')"
    by (simp add: pw_unreachable_def pw_ok_def)
  from pg_connect_failure_touches_nothing [OF this, of cfg_complete]
  show ?thesis by (simp add: cfg_complete_def str_exn_def)
qed









section \<open>Properties of the orchestrator\<close>

lemma upload_try_no_pg:
  "filter is_pg_event (fst (upload_test_file_to_blob_try w cs)) = []"
  by (simp add: upload_test_file_to_blob_try_def Let_def split: option.splits)

lemma upload_no_pg: "filter is_pg_event (fst (upload_test_file_to_blob w cs)) = []"
proof (cases "upload_test_file_to_blob_try w cs")
  case (Pair t out)
  with upload_try_no_pg [of w cs] have "filter is_pg_event t = []" by simp
  with Pair show ?thesis
    by (cases out) (simp_all add: upload_test_file_to_blob_def)
qed

lemma try_no_blob:
  "filter is_blob_event (fst (test_postgres_connection_try w cfg)) = []"
  by (simp add: test_postgres_connection_try_def Let_def split: option.splits sum.splits)

lemma pg_no_blob: "filter is_blob_event (fst (test_postgres_connection w cfg)) = []"
proof (cases "test_postgres_connection_try w cfg")
  case (fields t c out)
  with try_no_blob [of w cfg] have "filter is_blob_event t = []" by simp
  with fields show ?thesis
    by (cases out)
       (simp_all add: test_postgres_connection_def except_rollback_def finally_close_def
                 split: option.splits)
qed

lemma main_config_failed:
  "get_config_from_env e = Inl x \<Longrightarrow>
     main e bw pw = ([LogError (msg_failed @ str_exn x)], Inl x)"
  by (simp add: main_def main_try_def)

lemma main_storage_failed:
  "get_config_from_env e = Inr cfg \<Longrightarrow>
   upload_test_file_to_blob bw (storage_connection_string cfg) = (tb, Inl x) \<Longrightarrow>
     main e bw pw = (LogInfo msg_config_ok # tb @ [LogError (msg_failed @ str_exn x)], Inl x)"
  by (simp add: main_def main_try_def)

lemma main_database_failed:
  "get_config_from_env e = Inr cfg \<Longrightarrow>
   upload_test_file_to_blob bw (storage_connection_string cfg) = (tb, Inr br) \<Longrightarrow>
   test_postgres_connection pw cfg = (td, Inl x) \<Longrightarrow>
     main e bw pw =
       (LogInfo msg_config_ok # tb @ [LogInfo (msg_blob_ok @ br)] @ td
          @ [LogError (msg_failed @ str_exn x)], Inl x)"
  by (simp add: main_def main_try_def)

lemma main_all_returned:
  "get_config_from_env e = Inr cfg \<Longrightarrow>
   upload_test_file_to_blob bw (storage_connection_string cfg) = (tb, Inr br) \<Longrightarrow>
   test_postgres_connection pw cfg = (td, Inr dr) \<Longrightarrow>
     main e bw pw =
       (LogInfo msg_config_ok # tb @ [LogInfo (msg_blob_ok @ br)] @ td
          @ [LogInfo (msg_pg_ok @ dr)], Inr ''Success'')"
  by (simp add: main_def main_try_def)

lemma main_blob_before_pg:
  "\<exists>a b. fst (main e bw pw) = a @ b \<and> filter is_pg_event a = [] \<and> filter is_blob_event b = []"
proof (cases "get_config_from_env e")
  case (Inl x)
  have "fst (main e bw pw) = [LogError (msg_failed @ str_exn x)] @ []"
    by (simp add: main_config_failed [OF Inl])
  moreover have "filter is_pg_event [LogError (msg_failed @ str_exn x)] = []" by simp
  ultimately show ?thesis by (metis filter.simps(1))
next
  case (Inr cfg)
  obtain tb rb where up: "upload_test_file_to_blob bw (storage_connection_string cfg) = (tb, rb)"
    by (cases "upload_test_file_to_blob bw (storage_connection_string cfg)")
  from upload_no_pg [of bw "storage_connection_string cfg"] up
  have tb: "filter is_pg_event tb = []" by simp
  show ?thesis
  proof (cases rb)
    case (Inl x)
    with up have up': "upload_test_file_to_blob bw (storage_connection_string cfg) = (tb, Inl x)"
      by simp
    have "fst (main e bw pw) = (LogInfo msg_config_ok # tb) @ [LogError (msg_failed @ str_exn x)]"
      by (simp add: main_storage_failed [OF Inr up'])
    moreover have "filter is_pg_event (LogInfo msg_config_ok # tb) = []" using tb by simp
    moreover have "filter is_blob_event [LogError (msg_failed @ str_exn x)] = []" by simp
    ultimately show ?thesis by blast
  next
    case br: (Inr br)
    with up have up': "upload_test_file_to_blob bw (storage_connection_string cfg) = (tb, Inr br)"
      by simp
    obtain td rd where pg: "test_postgres_connection pw cfg = (td, rd)"
      by (cases "test_postgres_connection pw cfg")
    from pg_no_blob [of pw cfg] pg have td: "filter is_blob_event td = []" by simp
    have pre: "filter is_pg_event (LogInfo msg_config_ok # tb @ [LogInfo (msg_blob_ok @ br)]) = []"
      using tb by simp
    show ?thesis
    proof (cases rd)
      case (Inl x)
      with pg have pg': "test_postgres_connection pw cfg = (td, Inl x)" by simp
      have "fst (main e bw pw) =
              (LogInfo msg_config_ok # tb @ [LogInfo (msg_blob_ok @ br)])
              @ (td @ [LogError (msg_failed @ str_exn x)])"
        by (simp add: main_database_failed [OF Inr up' pg'])
      moreover have "filter is_blob_event (td @ [LogError (msg_failed @ str_exn x)]) = []"
        using td by simp
      ultimately show ?thesis using pre by blast
    next
      case dr: (Inr dr)
      with pg have pg': "test_postgres_connection pw cfg = (td, Inr dr)" by simp
      have "fst (main e bw pw) =
              (LogInfo msg_config_ok # tb @ [LogInfo (msg_blob_ok @ br)])
              @ (td @ [LogInfo (msg_pg_ok @ dr)])"
        by (simp add: main_all_returned [OF Inr up' pg'])
      moreover have "filter is_blob_event (td @ [LogInfo (msg_pg_ok @ dr)]) = []"
        using td by simp
      ultimately show ?thesis using pre by blast
    qed
  qed
qed

text \<open>
  Claim C4. The orchestrator loads the configuration, then runs the object-store probe,
  then the database probe. Whichever stage raises first, \<^verbatim>\<open>main\<close> logs that exception and
  re-raises it, and the run holds nothing of the later stages: after a failed load there
  is no event but the error record; after a failed object-store probe no call is made on
  the database library. In every run, all calls on the storage library come before all
  calls on the database library.
\<close>

theorem main_stages_in_sequence:
  "(\<forall>x. get_config_from_env e = Inl x \<longrightarrow>
        main e bw pw = ([LogError (msg_failed @ str_exn x)], Inl x)) \<and>
   (\<forall>cfg tb x.
        get_config_from_env e = Inr cfg \<and>
        upload_test_file_to_blob bw (storage_connection_string cfg) = (tb, Inl x) \<longrightarrow>
        main e bw pw = (LogInfo msg_config_ok # tb @ [LogError (msg_failed @ str_exn x)], Inl x) \<and>
        filter is_pg_event (fst (main e bw pw)) = []) \<and>
   (\<forall>cfg tb br td x.
        get_config_from_env e = Inr cfg \<and>
        upload_test_file_to_blob bw (storage_connection_string cfg) = (tb, Inr br) \<and>
        test_postgres_connection pw cfg = (td, Inl x) \<longrightarrow>
        main e bw pw =
          (LogInfo msg_config_ok # tb @ [LogInfo (msg_blob_ok @ br)] @ td
             @ [LogError (msg_failed @ str_exn x)], Inl x)) \<and>
   (\<forall>cfg tb br td dr.
        get_config_from_env e = Inr cfg \<and>
        upload_test_file_to_blob bw (storage_connection_string cfg) = (tb, Inr br) \<and>
        test_postgres_connection pw cfg = (td, Inr dr) \<longrightarrow>
        main e bw pw =
          (LogInfo msg_config_ok # tb @ [LogInfo (msg_blob_ok @ br)] @ td
             @ [LogInfo (msg_pg_ok @ dr)], Inr ''Success'')) \<and>
   (\<exists>a b. fst (main e bw pw) = a @ b \<and>
          filter is_pg_event a = [] \<and> filter is_blob_event b = [])"
proof -
  have storage: "filter is_pg_event (fst (main e bw pw)) = []"
    if "get_config_from_env e = Inr cfg"
      and "upload_test_file_to_blob bw (storage_connection_string cfg) = (tb, Inl x)"
    for cfg tb x
  proof -
    from upload_no_pg [of bw "storage_connection_string cfg"] that(2)
    have "filter is_pg_event tb = []" by simp
    then show ?thesis by (simp add: main_storage_failed [OF that])
  qed
  show ?thesis
    using main_config_failed [of e _ bw pw] main_storage_failed [of e _ bw _ _ pw]
          main_database_failed [of e _ bw _ _ pw] main_all_returned [of e _ bw _ _ pw]
          storage main_blob_before_pg [of e bw pw]
    by (intro conjI allI impI) blast+
qed


lemma env_complete_loads: "get_config_from_env env_complete = Inr cfg_complete"
  by (simp add: get_config_from_env_def missing_vars_def postgres_required_vars_def getenv_def
                getenv_default_def env_complete_def cfg_complete_def)

lemma bad_connection_string_run:
  "upload_test_file_to_blob bw_bad_connection_string (storage_connection_string cfg_complete) =
     ([BlobFromConnectionString ''UseDevelopmentStorage=true'',
       LogError (msg_blob_failed @ ''Connection string is either blank or malformed.'')],
      Inl (Exn ''ValueError'' ''Connection string is either blank or malformed.''))"
  by (simp add: upload_test_file_to_blob_def upload_test_file_to_blob_try_def
                bw_bad_connection_string_def bw_ok_def cfg_complete_def str_exn_def)

theorem main_stages_in_sequence_witness:
  "get_config_from_env env_complete = Inr cfg_complete \<and>
   isl (snd (upload_test_file_to_blob bw_bad_connection_string
               (storage_connection_string cfg_complete))) \<and>
   main env_complete bw_bad_connection_string pw_ok =
     ([LogInfo msg_config_ok,
       BlobFromConnectionString ''UseDevelopmentStorage=true'',
       LogError (msg_blob_failed @ ''Connection string is either blank or malformed.''),
       LogError (msg_failed @ ''Connection string is either blank or malformed.'')],
      Inl (Exn ''ValueError'' ''Connection string is either blank or malformed.'')) \<and>
   filter is_pg_event (fst (main env_complete bw_bad_connection_string pw_ok)) = []"
proof -
  from main_stages_in_sequence [of env_complete bw_bad_connection_string pw_ok]
  have "\<forall>cfg tb x.
          get_config_from_env env_complete = Inr cfg \<and>
          upload_test_file_to_blob bw_bad_connection_string (storage_connection_string cfg) =
            (tb, Inl x) \<longrightarrow>
          main env_complete bw_bad_connection_string pw_ok =
            (LogInfo msg_config_ok # tb @ [LogError (msg_failed @ str_exn x)], Inl x) \<and>
          filter is_pg_event (fst (main env_complete bw_bad_connection_string pw_ok)) = []"
    by blast
  from this [rule_format, OF conjI, OF env_complete_loads bad_connection_string_run]
  show ?thesis
    by (simp add: env_complete_loads bad_connection_string_run str_exn_def)
qed






end
